theory Spec2Isabelle
  imports Main "HOL-Library.Sublist" "HOL-Library.Word"
begin

section \<open>Strings and bytes of the runtime\<close>

text \<open>
  The worker is TypeScript on the Workers runtime. A string is modelled as a \<^typ>\<open>string\<close>,
  a list of 8-bit characters: a request header value is a byte string, \<open>atob\<close> returns
  code units below 256 and \<open>btoa\<close> accepts nothing else. The one character of the source
  beyond that range, the arrow of the back link, is written as the three bytes of its
  UTF-8 encoding, as it stands in the source file and in the response on the wire.
  The bytes of a \<open>Uint8Array\<close> are \<^typ>\<open>8 word\<close>.
\<close>

type_synonym byte = "8 word"

text \<open>\<open>String.prototype.trim\<close> removes white space and line terminators at both ends;
  below 256 these are the code units 9 to 13, 32 and 160.\<close>

definition isWhiteSpace :: "char \<Rightarrow> bool" where
  "isWhiteSpace c = ((of_char c :: nat) \<in> {0x09, 0x0A, 0x0B, 0x0C, 0x0D, 0x20, 0xA0})"

definition trim :: "string \<Rightarrow> string" where
  "trim s = rev (dropWhile isWhiteSpace (rev (dropWhile isWhiteSpace s)))"

text \<open>\<open>s.split(sep)\<close> with a one-character separator: never empty, \<open>''.split(sep)\<close> is
  \<open>['']\<close>.\<close>

fun split :: "char \<Rightarrow> string \<Rightarrow> string list" where
  "split sep [] = [[]]"
| "split sep (c # cs) =
     (if c = sep then [] # split sep cs
      else (case split sep cs of
              [] \<Rightarrow> [[c]]
            | p # ps \<Rightarrow> (c # p) # ps))"

text \<open>\<open>s.replace(/a/g, b)\<close> for single characters \<open>a\<close> and \<open>b\<close>.\<close>

definition replaceAll :: "char \<Rightarrow> char \<Rightarrow> string \<Rightarrow> string" where
  "replaceAll a b s = map (\<lambda>c. if c = a then b else c) s"

text \<open>\<open>String.prototype.toUpperCase\<close> on the ASCII letters, which is all the route's capture
  group can hold; every other character is left as it is.\<close>

definition isAsciiLetter :: "char \<Rightarrow> bool" where
  "isAsciiLetter c =
     (let n = (of_char c :: nat) in (65 \<le> n \<and> n \<le> 90) \<or> (97 \<le> n \<and> n \<le> 122))"

definition toUpperCase :: "string \<Rightarrow> string" where
  "toUpperCase s =
     map (\<lambda>c. let n = (of_char c :: nat) in if 97 \<le> n \<and> n \<le> 122 then char_of (n - 32) else c) s"

section \<open>Base64: \<open>btoa\<close> and \<open>atob\<close>\<close>

definition b64char :: "nat \<Rightarrow> char" where
  "b64char i =
     (if i < 26 then char_of (i + 65)
      else if i < 52 then char_of (i + 71)
      else if i < 62 then char_of (i - 4)
      else if i = 62 then CHR ''+''
      else CHR ''/'')"

definition b64index :: "char \<Rightarrow> nat option" where
  "b64index c =
     (let n = (of_char c :: nat) in
      if 65 \<le> n \<and> n \<le> 90 then Some (n - 65)
      else if 97 \<le> n \<and> n \<le> 122 then Some (n - 71)
      else if 48 \<le> n \<and> n \<le> 57 then Some (n + 4)
      else if n = 43 then Some 62
      else if n = 47 then Some 63
      else None)"

text \<open>\<open>btoa\<close>: three bytes become four characters of the alphabet, a last group of one or
  two bytes is padded with \<open>=\<close>. It throws on a code unit above 255, which a \<^typ>\<open>char\<close>
  cannot be.\<close>

fun btoa :: "string \<Rightarrow> string" where
  "btoa [] = []"
| "btoa [a] =
     (let x = (of_char a :: nat) in
      [b64char (x div 4), b64char ((x mod 4) * 16), CHR ''='', CHR ''=''])"
| "btoa [a, b] =
     (let x = (of_char a :: nat); y = (of_char b :: nat) in
      [b64char (x div 4), b64char ((x mod 4) * 16 + y div 16), b64char ((y mod 16) * 4),
       CHR ''=''])"
| "btoa (a # b # c # rest) =
     (let x = (of_char a :: nat); y = (of_char b :: nat); z = (of_char c :: nat) in
      [b64char (x div 4), b64char ((x mod 4) * 16 + y div 16),
       b64char ((y mod 16) * 4 + z div 64), b64char (z mod 64)] @ btoa rest)"

text \<open>\<open>atob\<close> is the forgiving base64 decoder of the HTML standard: ASCII white space is
  removed; if the length is then a multiple of 4, one or two \<open>=\<close> at the end are removed;
  a length of 1 modulo 4 or a character outside the alphabet is an error
  (\<open>None\<close>: the \<open>InvalidCharacterError\<close> exception); four characters give three
  bytes, a last group of two or three gives one or two.\<close>

definition isAsciiWhitespace :: "char \<Rightarrow> bool" where
  "isAsciiWhitespace c = ((of_char c :: nat) \<in> {0x09, 0x0A, 0x0C, 0x0D, 0x20})"

definition stripPadding :: "string \<Rightarrow> string" where
  "stripPadding d =
     (if length d mod 4 = 0 then
        (if suffix ''=='' d then take (length d - 2) d
         else if suffix ''='' d then take (length d - 1) d
         else d)
      else d)"

fun b64dec :: "nat list \<Rightarrow> string" where
  "b64dec (a # b # c # d # rest) =
     [char_of (a * 4 + b div 16), char_of ((b mod 16) * 16 + c div 4),
      char_of ((c mod 4) * 64 + d)] @ b64dec rest"
| "b64dec [a, b, c] = [char_of (a * 4 + b div 16), char_of ((b mod 16) * 16 + c div 4)]"
| "b64dec [a, b] = [char_of (a * 4 + b div 16)]"
| "b64dec _ = []"

definition atob :: "string \<Rightarrow> string option" where
  "atob s =
     (let d = stripPadding (filter (\<lambda>c. \<not> isAsciiWhitespace c) s) in
      if length d mod 4 = 1 then None
      else (case those (map b64index d) of
              None \<Rightarrow> None
            | Some sextets \<Rightarrow> Some (b64dec sextets)))"

text \<open>\<open>blobToBase64\<close>: the loop appends \<open>String.fromCharCode(bytes[i])\<close> for each byte, then
  \<open>btoa\<close> encodes the binary string.\<close>

definition fromCharCode :: "byte \<Rightarrow> char" where
  "fromCharCode b = char_of (unat b)"

fun binaryString :: "byte list \<Rightarrow> string \<Rightarrow> string" where
  "binaryString [] binary = binary"
| "binaryString (b # bytes) binary = binaryString bytes (binary @ [fromCharCode b])"

definition blobToBase64 :: "byte list \<Rightarrow> string" where
  "blobToBase64 blob = btoa (binaryString blob [])"

section \<open>Dates: \<open>new Date(ms).toUTCString()\<close>\<close>

text \<open>
  A time value is a number of milliseconds since the epoch, here an \<^typ>\<open>int\<close>. A
  \<open>Date\<close> holds it only within 8.64e15 of zero and is an invalid date otherwise. The day
  number is turned into a year, month and day of the proleptic Gregorian calendar by era
  arithmetic: eras of 400 years (146097 days) counted from 1 March of year 0.
\<close>

definition msPerDay :: int where
  "msPerDay = 86400000"

definition civilFromDays :: "int \<Rightarrow> int \<times> int \<times> int" where
  "civilFromDays days =
     (let z = days + 719468;
          era = z div 146097;
          doe = z mod 146097;
          yoe = (doe - doe div 1460 + doe div 36524 - doe div 146096) div 365;
          doy = doe - (365 * yoe + yoe div 4 - yoe div 100);
          mp = (5 * doy + 2) div 153;
          d = doy - (153 * mp + 2) div 5 + 1;
          m = (if mp < 10 then mp + 3 else mp - 9);
          y = yoe + era * 400
      in (if m \<le> 2 then y + 1 else y, m, d))"

fun decimal :: "nat \<Rightarrow> string" where
  "decimal n =
     (if n < 10 then [''0123456789'' ! n]
      else decimal (n div 10) @ [''0123456789'' ! (n mod 10)])"

definition zeroPadded :: "nat \<Rightarrow> nat \<Rightarrow> string" where
  "zeroPadded n minLength =
     (let s = decimal n in replicate (minLength - length s) (CHR ''0'') @ s)"

definition weekDayName :: "int \<Rightarrow> string" where
  "weekDayName tv =
     [''Sun'', ''Mon'', ''Tue'', ''Wed'', ''Thu'', ''Fri'', ''Sat'']
       ! nat ((tv div msPerDay + 4) mod 7)"

definition monthName :: "int \<Rightarrow> string" where
  "monthName m =
     [''Jan'', ''Feb'', ''Mar'', ''Apr'', ''May'', ''Jun'',
      ''Jul'', ''Aug'', ''Sep'', ''Oct'', ''Nov'', ''Dec''] ! nat (m - 1)"

definition toUTCString :: "int \<Rightarrow> string" where
  "toUTCString tv =
     (if \<bar>tv\<bar> > 8640000000000000 then ''Invalid Date''
      else
        (let (yv, m, d) = civilFromDays (tv div msPerDay);
             secs = (tv mod msPerDay) div 1000;
             yearSign = (if yv \<ge> 0 then [] else ''-'')
         in weekDayName tv @ '', '' @ zeroPadded (nat d) 2 @ '' '' @ monthName m @ '' ''
            @ yearSign @ zeroPadded (nat \<bar>yv\<bar>) 4 @ '' ''
            @ zeroPadded (nat (secs div 3600)) 2 @ '':''
            @ zeroPadded (nat ((secs div 60) mod 60)) 2 @ '':''
            @ zeroPadded (nat (secs mod 60)) 2 @ '' GMT''))"

section \<open>The worker\<close>

subsection \<open>Values of the platform\<close>

text \<open>A thrown value: the \<open>name\<close> and \<open>message\<close> of an \<open>Error\<close> object.\<close>

datatype js_error = JsError (name: string) (message: string)

text \<open>The claims of the token, as the interface \<open>JWTPayload\<close> declares them: every field
  optional. \<open>iat\<close> is a number of seconds; the model holds the integers, on which the
  arithmetic of the worker is exact. An object with a field of another type or with a
  fractional \<open>iat\<close> is outside the model.\<close>

record JWTPayload =
  email :: "string option"
  iat :: "int option"
  country :: "string option"
  sub :: "string option"

text \<open>
  What \<open>JSON.parse\<close> returns, as far as the worker can tell the values apart: \<open>null\<close>, on
  which reading a property throws a \<open>TypeError\<close>; a boolean, a number, a string or an
  array, on which every property the worker reads is \<open>undefined\<close>; or an object, with the
  fields above. The annotation \<open>JWTPayload\<close> on \<open>decodeJWT\<close> checks nothing at run time.
\<close>

datatype json = JsonNull | JsonNonObject | JsonObject JWTPayload

text \<open>
  What the runtime supplies and this repository does not define: \<open>JSON.parse\<close>, which
  returns a value or throws; the exception \<open>atob\<close> throws on input that is not base64;
  and the \<open>TypeError\<close> thrown when a property of \<open>null\<close> is read. The standards leave the
  messages of both exceptions open.
\<close>

record platform =
  JSON_parse :: "string \<Rightarrow> js_error + json"
  atob_error :: js_error
  null_error :: js_error

text \<open>The request as the worker reads it: the path of its URL and the value of its
  \<open>Cookie\<close> header, if it has one.\<close>

record Request =
  pathname :: string
  Cookie :: "string option"

text \<open>The response as the worker builds it: the body, the status (200 unless it is
  given) and the headers it sets itself.\<close>

record Response =
  body :: string
  status :: nat
  headers :: "(string \<times> string) list"

text \<open>The bucket of flags: \<open>get(key)\<close> throws, or returns \<open>null\<close>, or an object whose
  \<open>blob()\<close> throws or returns the bytes.\<close>

type_synonym R2ObjectBody = "js_error + byte list"

type_synonym R2Bucket = "string \<Rightarrow> js_error + R2ObjectBody option"

record Env =
  FLAGS :: R2Bucket

subsection \<open>Pages\<close>

text \<open>The templates are written line by line: \<open>line n s\<close> is \<open>n\<close> tabs, the text and a
  line feed.\<close>

definition line :: "nat \<Rightarrow> string \<Rightarrow> string" where
  "line n s = replicate n (CHR 0x09) @ s @ [CHR 0x0A]"

definition arrow :: string where
  "arrow = [CHR 0xE2, CHR 0x86, CHR 0x90]"

definition renderHTML :: "string \<Rightarrow> string \<Rightarrow> string" where
  \<open>renderHTML title content =
     [CHR 0x0A] @ concat [
      line 2 ''<!DOCTYPE html>'',
      line 2 ''<html lang="en">'',
      line 2 ''<head>'',
      line 3 ''<meta charset="UTF-8">'',
      line 3 ''<meta name="viewport" content="width=device-width, initial-scale=1.0">'',
      line 3 (''<title>'' @ title @ ''</title>''),
      line 3 ''<style>'',
      line 4 ''body {'',
      line 5 ''font-family: -apple-system, BlinkMacSystemFont, 'Segoe UI', Roboto, sans-serif;'',
      line 5 ''max-width: 800px;'',
      line 5 ''margin: 50px auto;'',
      line 5 ''padding: 20px;'',
      line 5 ''line-height: 1.6;'',
      line 4 ''}'',
      line 4 ''h1 {'',
      line 5 ''color: #333;'',
      line 5 ''border-bottom: 2px solid #0066cc;'',
      line 5 ''padding-bottom: 10px;'',
      line 4 ''}'',
      line 4 ''a {'',
      line 5 ''color: #0066cc;'',
      line 5 ''text-decoration: none;'',
      line 5 ''font-weight: bold;'',
      line 4 ''}'',
      line 4 ''a:hover {'',
      line 5 ''text-decoration: underline;'',
      line 4 ''}'',
      line 4 ''p {'',
      line 5 ''font-size: 18px;'',
      line 5 ''color: #555;'',
      line 4 ''}'',
      line 3 ''</style>'',
      line 2 ''</head>'',
      line 2 ''<body>'',
      line 3 (''<h1>'' @ title @ ''</h1>''),
      line 3 content,
      line 2 ''</body>'',
      line 2 ''</html>''] @ replicate 1 (CHR 0x09)\<close>

definition flagPage :: "string \<Rightarrow> string \<Rightarrow> string" where
  \<open>flagPage = (\<lambda>country base64.
     [CHR 0x0A] @ concat [
      line 3 ''<!DOCTYPE html>'',
      line 3 ''<html lang="en">'',
      line 3 ''<head>'',
      line 4 ''<meta charset="UTF-8">'',
      line 4 ''<meta name="viewport" content="width=device-width, initial-scale=1.0">'',
      line 4 (''<title>Flag: '' @ country @ ''</title>''),
      line 4 ''<style>'',
      line 5 ''body {'',
      line 6 ''font-family: -apple-system, BlinkMacSystemFont, 'Segoe UI', Roboto, sans-serif;'',
      line 6 ''max-width: 800px;'',
      line 6 ''margin: 50px auto;'',
      line 6 ''padding: 20px;'',
      line 6 ''text-align: center;'',
      line 5 ''}'',
      line 5 ''.flag-container {'',
      line 6 ''margin: 30px 0;'',
      line 6 ''border: 1px solid #ddd;'',
      line 6 ''border-radius: 8px;'',
      line 6 ''padding: 20px;'',
      line 6 ''background: #f9f9f9;'',
      line 5 ''}'',
      line 5 ''.flag-container img {'',
      line 6 ''max-width: 100%;'',
      line 6 ''height: auto;'',
      line 6 ''border: 2px solid #333;'',
      line 6 ''box-shadow: 0 4px 6px rgba(0,0,0,0.1);'',
      line 5 ''}'',
      line 5 ''.back-link {'',
      line 6 ''margin-top: 30px;'',
      line 6 ''font-size: 16px;'',
      line 5 ''}'',
      line 5 ''.back-link a {'',
      line 6 ''color: #0066cc;'',
      line 6 ''text-decoration: none;'',
      line 5 ''}'',
      line 5 ''.back-link a:hover {'',
      line 6 ''text-decoration: underline;'',
      line 5 ''}'',
      line 4 ''</style>'',
      line 3 ''</head>'',
      line 3 ''<body>'',
      line 4 (''<h1>Country: '' @ country @ ''</h1>''),
      line 4 ''<div class="flag-container">'',
      line 5 (''<img src="data:image/png;base64,'' @ base64 @ ''" alt="Flag of '' @ country @ ''">''),
      line 4 ''</div>'',
      line 4 ''<div class="back-link">'',
      line 5 (''<a href="/secure">'' @ arrow @ '' Back to authentication info</a>''),
      line 4 ''</div>'',
      line 3 ''</body>'',
      line 3 ''</html>''] @ replicate 2 (CHR 0x09))\<close>

definition htmlHeaders :: "(string \<times> string) list" where
  "htmlHeaders = [(''Content-Type'', ''text/html'')]"

subsection \<open>\<open>decodeJWT\<close>\<close>

text \<open>Splits the token on the dots, throws \<open>Error('Invalid JWT format')\<close> unless there
  are three parts, and decodes and parses the second. Nothing verifies the signature.\<close>

definition decodeJWT :: "platform \<Rightarrow> string \<Rightarrow> js_error + json" where
  "decodeJWT pf jwt =
     (let parts = split (CHR ''.'') jwt in
      if length parts \<noteq> 3 then Inl (JsError ''Error'' ''Invalid JWT format'')
      else
        (let payload = parts ! 1;
             base64 = replaceAll (CHR ''_'') (CHR ''/'') (replaceAll (CHR ''-'') (CHR ''+'') payload)
         in case atob base64 of
              None \<Rightarrow> Inl (atob_error pf)
            | Some jsonPayload \<Rightarrow> JSON_parse pf jsonPayload))"

subsection \<open>\<open>handleSecure\<close>\<close>

text \<open>The loop over the cookies: the first one that, trimmed, starts with
  \<open>CF_Authorization=\<close> gives the token and ends the loop.\<close>

fun findToken :: "string list \<Rightarrow> string option" where
  "findToken [] = None"
| "findToken (cookie # cookies) =
     (let trimmed = trim cookie in
      if prefix ''CF_Authorization='' trimmed
      then Some (drop (length ''CF_Authorization='') trimmed)
      else findToken cookies)"

text \<open>\<open>jwtToken\<close> stays \<open>null\<close> when the header is absent or empty or holds no such cookie.\<close>

definition cookieToken :: "string option \<Rightarrow> string option" where
  "cookieToken cookieHeader =
     (case cookieHeader of
        None \<Rightarrow> None
      | Some h \<Rightarrow> if h = [] then None else findToken (split (CHR '';'') h))"

text \<open>\<open>a || 'Unknown'\<close> on an optional string: an absent and an empty one are both falsy.\<close>

definition orUnknown :: "string option \<Rightarrow> string" where
  "orUnknown v = (case v of None \<Rightarrow> ''Unknown'' | Some s \<Rightarrow> if s = [] then ''Unknown'' else s)"

definition unauthenticated :: Response where
  "unauthenticated =
     \<lparr>body = renderHTML ''Authentication Required''
               ''<p>No Cloudflare Access JWT found. Please authenticate.</p>'',
      status = 401, headers = htmlHeaders\<rparr>"

text \<open>Reading \<open>payload.email\<close>, \<open>payload.country\<close> and \<open>payload.iat\<close>: the first read throws
  on \<open>null\<close>; on a value that is not an object all three are \<open>undefined\<close>.\<close>

definition readClaims :: "platform \<Rightarrow> json \<Rightarrow> js_error + JWTPayload" where
  "readClaims pf payload =
     (case payload of
        JsonNull \<Rightarrow> Inl (null_error pf)
      | JsonNonObject \<Rightarrow> Inr \<lparr>email = None, iat = None, country = None, sub = None\<rparr>
      | JsonObject claims \<Rightarrow> Inr claims)"

definition handleSecure :: "platform \<Rightarrow> Request \<Rightarrow> Response" where
  \<open>handleSecure pf request =
     (case cookieToken (Cookie request) of
        None \<Rightarrow> unauthenticated
      | Some jwtToken \<Rightarrow>
          if jwtToken = [] then unauthenticated
          else
            (let failed = (\<lambda>error.
                   \<lparr>body = renderHTML ''Error''
                             (''<p>Error parsing JWT: '' @ message error @ ''</p>''),
                    status = 500, headers = htmlHeaders\<rparr>)
             in case decodeJWT pf jwtToken of
                  Inl error \<Rightarrow> failed error
                | Inr payload \<Rightarrow>
                    (case readClaims pf payload of
                       Inl error \<Rightarrow> failed error
                     | Inr claims \<Rightarrow>
                         (let email = orUnknown (email claims);
                              country = orUnknown (country claims);
                              timestamp =
                                (case iat claims of
                                   None \<Rightarrow> ''Unknown''
                                 | Some t \<Rightarrow>
                                     if t = 0 then ''Unknown'' else toUTCString (t * 1000));
                              message = email @ '' authenticated at '' @ timestamp @ '' from '';
                              countryLink =
                                ''<a href="/secure/'' @ country @ ''">'' @ country @ ''</a>'';
                              html = renderHTML ''Authentication Info''
                                       (''<p>'' @ message @ countryLink @ ''</p>'')
                          in \<lparr>body = html, status = 200, headers = htmlHeaders\<rparr>))))\<close>

subsection \<open>\<open>handleCountryFlag\<close>\<close>

definition handleCountryFlag :: "string \<Rightarrow> Env \<Rightarrow> Response" where
  \<open>handleCountryFlag = (\<lambda>country env.
     (let flagKey = country @ ''.png'';
          failed = (\<lambda>error.
            \<lparr>body = renderHTML ''Error'' (''<p>Error loading flag: '' @ message error @ ''</p>''),
             status = 500, headers = htmlHeaders\<rparr>)
      in case FLAGS env flagKey of
           Inl error \<Rightarrow> failed error
         | Inr None \<Rightarrow>
             \<lparr>body = renderHTML (''Flag for '' @ country)
                       (''<p>Flag for country code "'' @ country @ ''" not found.</p>''
                        @ [CHR 0x0A] @ replicate 5 (CHR 0x09)
                        @ ''<p><a href="/secure">'' @ arrow
                        @ '' Back to authentication info</a></p>''),
              status = 404, headers = htmlHeaders\<rparr>
         | Inr (Some flag) \<Rightarrow>
             (case flag of
                Inl error \<Rightarrow> failed error
              | Inr flagBlob \<Rightarrow>
                  \<lparr>body = flagPage country (blobToBase64 flagBlob),
                   status = 200, headers = htmlHeaders\<rparr>)))\<close>

subsection \<open>\<open>fetch\<close>\<close>

text \<open>The pattern \<open>/^\/secure\/([A-Z]{2})$/i\<close>: the whole path is \<open>/secure/\<close>, in letters of
  either case, and two ASCII letters of either case; the result is the capture group.
  Under the flag \<open>i\<close> a character of the path matches one of the pattern when both have
  the same upper case, and no character outside ASCII has an ASCII upper case there.\<close>

definition countryMatch :: "string \<Rightarrow> string option" where
  "countryMatch p =
     (if toUpperCase (take (length ''/secure/'') p) = toUpperCase ''/secure/'' then
        (case drop (length ''/secure/'') p of
           [a, b] \<Rightarrow> if isAsciiLetter a \<and> isAsciiLetter b then Some [a, b] else None
         | _ \<Rightarrow> None)
      else None)"

definition fetch :: "platform \<Rightarrow> Request \<Rightarrow> Env \<Rightarrow> Response" where
  "fetch pf request env =
     (if pathname request = ''/secure'' then handleSecure pf request
      else
        (case countryMatch (pathname request) of
           Some m \<Rightarrow> handleCountryFlag (toUpperCase m) env
         | None \<Rightarrow> \<lparr>body = ''Not Found. Try /secure'', status = 404, headers = []\<rparr>))"

section \<open>Notions used by the statements\<close>

text \<open>The byte a character of a binary string stands for (\<open>charCodeAt(0)\<close>), the inverse of
  \<open>String.fromCharCode\<close> on bytes.\<close>

definition charCode :: "char \<Rightarrow> byte" where
  "charCode c = of_nat (of_char c)"

text \<open>The six-bit groups that \<open>btoa\<close> writes for a binary string, before they become
  characters and padding.\<close>

fun sextets :: "string \<Rightarrow> nat list" where
  "sextets [] = []"
| "sextets [a] = (let x = (of_char a :: nat) in [x div 4, (x mod 4) * 16])"
| "sextets [a, b] =
     (let x = (of_char a :: nat); y = (of_char b :: nat) in
      [x div 4, (x mod 4) * 16 + y div 16, (y mod 16) * 4])"
| "sextets (a # b # c # rest) =
     (let x = (of_char a :: nat); y = (of_char b :: nat); z = (of_char c :: nat) in
      [x div 4, (x mod 4) * 16 + y div 16, (y mod 16) * 4 + z div 64, z mod 64]
      @ sextets rest)"

text \<open>
  The routes in the words of the specification: a path is an asset route when it is ten
  characters long, its first eight are \<open>/secure/\<close> up to the case of the letters, and its
  last two are letters of the alphabet; its code is the two letters in upper case. The
  letters and their upper case are given by the two alphabets.
\<close>

definition lowerLetters :: string where
  "lowerLetters = ''abcdefghijklmnopqrstuvwxyz''"

definition upperLetters :: string where
  "upperLetters = ''ABCDEFGHIJKLMNOPQRSTUVWXYZ''"

definition isLetter :: "char \<Rightarrow> bool" where
  "isLetter c = (c \<in> set (lowerLetters @ upperLetters))"

definition upperOf :: "char \<Rightarrow> char" where
  "upperOf c = (case map_of (zip lowerLetters upperLetters) c of Some u \<Rightarrow> u | None \<Rightarrow> c)"

definition assetCode :: "string \<Rightarrow> string option" where
  "assetCode p =
     (if length p = 10 \<and> map upperOf (take 8 p) = map upperOf ''/secure/''
         \<and> isLetter (p ! 8) \<and> isLetter (p ! 9)
      then Some [upperOf (p ! 8), upperOf (p ! 9)]
      else None)"

text \<open>
  Inputs for the examples. The platform of the examples has a parser that knows five
  texts, the claims of the documentation's example, claims whose email is markup, the
  empty object, the number 42 and \<open>null\<close>, and throws a \<open>SyntaxError\<close> on every other text.
  The bucket of the examples holds one object, four bytes under \<open>US.png\<close>; the failing
  bucket throws on every key.
\<close>

definition sampleParse :: "string \<Rightarrow> js_error + json" where
  \<open>sampleParse s =
     (if s = ''{"email":"a@b.com","iat":1696272615,"country":"US"}'' then
        Inr (JsonObject
          \<lparr>email = Some ''a@b.com'', iat = Some 1696272615, country = Some ''US'', sub = None\<rparr>)
      else if s = ''{"email":"<script>"}'' then
        Inr (JsonObject \<lparr>email = Some ''<script>'', iat = None, country = None, sub = None\<rparr>)
      else if s = ''{}'' then
        Inr (JsonObject \<lparr>email = None, iat = None, country = None, sub = None\<rparr>)
      else if s = ''42'' then Inr JsonNonObject
      else if s = ''null'' then Inr JsonNull
      else Inl (JsError ''SyntaxError'' ''Unexpected token''))\<close>

definition samplePlatform :: platform where
  "samplePlatform =
     \<lparr>JSON_parse = sampleParse,
      atob_error = JsError ''InvalidCharacterError'' ''Invalid character'',
      null_error = JsError ''TypeError'' ''Cannot read properties of null''\<rparr>"


definition sampleEnv :: Env where
  "sampleEnv =
     \<lparr>FLAGS = (\<lambda>key. if key = ''US.png'' then Inr (Some (Inr [0x89, 0x50, 0x4E, 0x47]))
                     else Inr None)\<rparr>"

section \<open>Base64 round trip\<close>

lemma b64index_b64char: "i < 64 \<Longrightarrow> b64index (b64char i) = Some i"
  by (auto simp: b64index_def b64char_def Let_def)

lemma charCode_fromCharCode: "charCode (fromCharCode b) = b"
proof -
  have "unat b < 256" using unsigned_less [of b] by simp
  then show ?thesis by (simp add: fromCharCode_def charCode_def)
qed

lemma binaryString_eq: "binaryString bs acc = acc @ map fromCharCode bs"
  by (induction bs arbitrary: acc) auto

lemma of_char_less_256: "(of_char c :: nat) < 256"
  by (simp add: of_char_def)

lemma btoa_sextets:
  "btoa s = map b64char (sextets s) @ replicate ((3 - length s mod 3) mod 3) (CHR ''='')"
proof (induction s rule: btoa.induct)
  case (4 a b c rest)
  have "length (a # b # c # rest) mod 3 = length rest mod 3" by simp
  with 4 show ?case by (simp add: Let_def)
qed (simp_all add: Let_def numeral_2_eq_2)

lemma div_mod_bounds:
  fixes x y z :: nat
  assumes "x < 256" "y < 256" "z < 256"
  shows "x div 4 < 64" "(x mod 4) * 16 < 64" "(x mod 4) * 16 + y div 16 < 64"
    "(y mod 16) * 4 < 64" "(y mod 16) * 4 + z div 64 < 64" "z mod 64 < 64"
proof -
  have m4: "x mod 4 < 4" and m16: "y mod 16 < 16" by simp_all
  have d4: "x div 4 < 64" and d16: "y div 16 < 16" and d64: "z div 64 < 4"
    using assms by (simp_all add: div_less_iff_less_mult)
  show "x div 4 < 64" by (rule d4)
  show "(x mod 4) * 16 < 64" using m4 by linarith
  show "(x mod 4) * 16 + y div 16 < 64" using m4 d16 by linarith
  show "(y mod 16) * 4 < 64" using m16 by linarith
  show "(y mod 16) * 4 + z div 64 < 64" using m16 d64 by linarith
  show "z mod 64 < 64" by simp
qed

lemma sextets_bound: "i \<in> set (sextets s) \<Longrightarrow> i < 64"
proof (induction s arbitrary: i rule: sextets.induct)
  case (2 a)
  note b = div_mod_bounds [OF of_char_less_256 [of a] of_char_less_256 [of a] of_char_less_256 [of a]]
  from 2 have "i = of_char a div 4 \<or> i = (of_char a mod 4) * 16" by (simp add: Let_def)
  with b show ?case by metis
next
  case (3 a b)
  note bd = div_mod_bounds [OF of_char_less_256 [of a] of_char_less_256 [of b] of_char_less_256 [of b]]
  from 3 have "i = of_char a div 4 \<or> i = (of_char a mod 4) * 16 + of_char b div 16
     \<or> i = (of_char b mod 16) * 4" by (simp add: Let_def)
  with bd show ?case by metis
next
  case (4 a b c rest)
  note bd = div_mod_bounds [OF of_char_less_256 [of a] of_char_less_256 [of b] of_char_less_256 [of c]]
  from 4(2) have "i = of_char a div 4 \<or> i = (of_char a mod 4) * 16 + of_char b div 16
     \<or> i = (of_char b mod 16) * 4 + of_char c div 64 \<or> i = of_char c mod 64
     \<or> i \<in> set (sextets rest)"
    by (simp add: Let_def)
  with bd 4(1) show ?case by metis
qed simp

lemma b64dec_sextets: "b64dec (sextets s) = s"
proof (induction s rule: sextets.induct)
  case (2 a)
  have e: "of_char a div 4 * 4 + (of_char a mod 4) * 16 div 16 = (of_char a :: nat)"
    by simp
  show ?case
    unfolding sextets.simps Let_def b64dec.simps e by simp
next
  case (3 a b)
  have e: "of_char a div 4 * 4 + ((of_char a mod 4) * 16 + of_char b div 16) div 16
       = (of_char a :: nat)"
    "((of_char a mod 4) * 16 + of_char b div 16) mod 16 * 16 + (of_char b mod 16) * 4 div 4
       = (of_char b :: nat)"
    using of_char_less_256 [of b] by (simp_all add: div_less_iff_less_mult)
  show ?case
    unfolding sextets.simps Let_def b64dec.simps e by simp
next
  case (4 a b c rest)
  have e: "of_char a div 4 * 4 + ((of_char a mod 4) * 16 + of_char b div 16) div 16
       = (of_char a :: nat)"
    "((of_char a mod 4) * 16 + of_char b div 16) mod 16 * 16
       + ((of_char b mod 16) * 4 + of_char c div 64) div 4 = (of_char b :: nat)"
    "((of_char b mod 16) * 4 + of_char c div 64) mod 4 * 64 + of_char c mod 64
       = (of_char c :: nat)"
    using of_char_less_256 [of b] of_char_less_256 [of c]
    by (simp_all add: div_less_iff_less_mult)
  show ?case
    using 4 unfolding sextets.simps Let_def append.simps b64dec.simps e by simp
qed simp

lemma of_char_b64char: "(of_char (b64char i) :: nat) \<noteq> 61"
  by (auto simp: b64char_def)

lemma b64char_not_pad: "b64char i \<noteq> CHR ''=''"
  using of_char_b64char [of i] by auto

lemma b64char_not_ws: "\<not> isAsciiWhitespace (b64char i)"
  by (auto simp: b64char_def isAsciiWhitespace_def)

lemma length_sextets_pad: "(length (sextets s) + (3 - length s mod 3) mod 3) mod 4 = 0"
proof (induction s rule: sextets.induct)
  case (4 a b c rest)
  have "length (a # b # c # rest) mod 3 = length rest mod 3" by simp
  with 4 show ?case by (simp add: Let_def)
qed (simp_all add: Let_def)

lemma length_sextets_mod4: "length (sextets s) mod 4 \<noteq> 1"
  by (induction s rule: sextets.induct) (simp_all add: Let_def)

lemma stripPadding_pad:
  assumes "CHR ''='' \<notin> set d" "k \<le> 2" "(length d + k) mod 4 = 0"
  shows "stripPadding (d @ replicate k (CHR ''='')) = d"
proof -
  consider "k = 0" | "k = 1" | "k = 2" using assms(2) by linarith
  then show ?thesis
  proof cases
    case 1
    have "\<not> suffix ''=='' d" "\<not> suffix ''='' d"
      using assms(1) set_mono_suffix by fastforce+
    then show ?thesis using 1 by (simp add: stripPadding_def)
  next
    case 2
    have "\<not> suffix ''=='' (d @ ''='')"
      using assms(1) by (auto simp: suffix_def append_eq_append_conv2 Cons_eq_append_conv)
    then show ?thesis using 2 assms(3) by (simp add: stripPadding_def)
  next
    case 3
    then have "d @ replicate k (CHR ''='') = d @ ''==''" by (simp add: numeral_2_eq_2)
    then show ?thesis using 3 assms(3) by (simp add: stripPadding_def suffix_def)
  qed
qed

lemma those_map_b64index:
  "(\<And>i. i \<in> set xs \<Longrightarrow> i < 64) \<Longrightarrow> those (map b64index (map b64char xs)) = Some xs"
  by (induction xs) (simp_all add: b64index_b64char)

lemma atob_btoa: "atob (btoa s) = Some s"
proof -
  let ?k = "(3 - length s mod 3) mod 3"
  let ?body = "map b64char (sextets s)"
  have nows: "filter (\<lambda>c. \<not> isAsciiWhitespace c) (btoa s) = btoa s"
    by (simp add: btoa_sextets b64char_not_ws isAsciiWhitespace_def [of "CHR ''=''"])
  have "CHR ''='' \<notin> set ?body"
  proof
    assume "CHR ''='' \<in> set ?body"
    then obtain i where "b64char i = CHR ''=''" by auto
    with b64char_not_pad show False by blast
  qed
  moreover have "?k \<le> 2" by simp
  moreover have "(length ?body + ?k) mod 4 = 0" using length_sextets_pad [of s] by simp
  ultimately have sp: "stripPadding (btoa s) = ?body"
    unfolding btoa_sextets by (rule stripPadding_pad)
  have len: "length ?body mod 4 \<noteq> 1" using length_sextets_mod4 [of s] by simp
  have idx: "those (map b64index ?body) = Some (sextets s)"
    by (rule those_map_b64index) (rule sextets_bound)
  show ?thesis
    unfolding atob_def Let_def nows sp idx using len by (simp add: b64dec_sextets)
qed

lemma blobToBase64_decodes: "map_option (map charCode) (atob (blobToBase64 B)) = Some B"
  by (simp add: blobToBase64_def atob_btoa binaryString_eq charCode_fromCharCode comp_def)

section \<open>Routing\<close>

lemma upper_char: "\<forall>c::char. upperOf c = hd (toUpperCase [c])"
  by code_simp

lemma letter_char: "\<forall>c::char. isLetter c = isAsciiLetter c"
  by code_simp

lemma toUpperCase_map: "toUpperCase s = map upperOf s"
proof -
  have "upperOf c = hd (toUpperCase [c])" for c using upper_char by blast
  then have "upperOf c = (let n = (of_char c :: nat) in if 97 \<le> n \<and> n \<le> 122 then char_of (n - 32) else c)" for c
    by (simp add: toUpperCase_def)
  then show ?thesis by (simp add: toUpperCase_def)
qed

lemma isAsciiLetter_isLetter: "isAsciiLetter c = isLetter c"
  using letter_char by blast

lemma drop_two:
  assumes "drop 8 p = [a, b]"
  shows "length p = 10" and "p ! 8 = a" and "p ! 9 = b"
proof -
  have l: "length (drop 8 p) = 2" using assms by simp
  then show "length p = 10" by simp
  have "p ! 8 = drop 8 p ! 0" "p ! 9 = drop 8 p ! 1" using l by (simp_all add: nth_drop)
  then show "p ! 8 = a" "p ! 9 = b" using assms by simp_all
qed

lemma countryMatch_alt:
  "countryMatch p =
     (if map upperOf (take 8 p) = map upperOf ''/secure/'' then
        (case drop 8 p of
           [a, b] \<Rightarrow> if isLetter a \<and> isLetter b then Some [a, b] else None
         | _ \<Rightarrow> None)
      else None)"
proof -
  have "length ''/secure/'' = 8" by simp
  then show ?thesis
    unfolding countryMatch_def toUpperCase_map isAsciiLetter_isLetter by (simp only:)
qed

lemma assetCode_countryMatch: "assetCode p = map_option toUpperCase (countryMatch p)"
proof (cases "map upperOf (take 8 p) = map upperOf ''/secure/''")
  case False
  then show ?thesis by (simp only: assetCode_def countryMatch_alt if_False simp_thms option.map)
next
  case True
  have len: "length (drop 8 p) = length p - 8" by simp
  show ?thesis
  proof (cases "drop 8 p")
    case Nil
    with len have "length p \<noteq> 10" by simp
    with Nil show ?thesis by (simp add: assetCode_def countryMatch_alt)
  next
    case (Cons a as)
    show ?thesis
    proof (cases as)
      case Nil
      with Cons len have "length p \<noteq> 10" by simp
      with Cons Nil show ?thesis by (simp add: assetCode_def countryMatch_alt)
    next
      case c2: (Cons b bs)
      show ?thesis
      proof (cases bs)
        case Nil
        with Cons c2 have d: "drop 8 p = [a, b]" by simp
        note n = drop_two [OF d]
        show ?thesis
          unfolding assetCode_def countryMatch_alt d n
          using True by (simp add: toUpperCase_map)
      next
        case c3: (Cons c cs)
        with Cons c2 len have "length p \<noteq> 10" by simp
        with Cons c2 c3 show ?thesis by (simp add: assetCode_def countryMatch_alt)
      qed
    qed
  qed
qed

lemma fetch_assetCode:
  "fetch pf request env =
     (if pathname request = ''/secure'' then handleSecure pf request
      else case assetCode (pathname request) of
             Some code \<Rightarrow> handleCountryFlag code env
           | None \<Rightarrow> \<lparr>body = ''Not Found. Try /secure'', status = 404, headers = []\<rparr>)"
  by (simp add: fetch_def assetCode_countryMatch split: option.splits)

lemma assetCode_examples:
  "assetCode ''/secure/us'' = Some ''US''" "assetCode ''/secure/US'' = Some ''US''"
  "assetCode ''/secure/usa'' = None" "assetCode ''/SECURE/ca'' = Some ''CA''"
  "assetCode ''/secure/u1'' = None" "assetCode ''/secure/zz'' = Some ''ZZ''"
  "assetCode ''/Secure/zz'' = Some ''ZZ''" "assetCode ''/nope'' = None"
  by code_simp+

text \<open>
  C7. For every request path: the path \<open>/secure\<close> is handled by \<open>handleSecure\<close>; an asset
  route, \<open>/secure/\<close> and two letters, is handled by \<open>handleCountryFlag\<close> with the two letters
  in upper case; every other path gets the response 404 with the body
  \<open>Not Found. Try /secure\<close>. So \<open>/secure/us\<close> and \<open>/secure/US\<close> both reach the flag of \<open>US\<close>,
  and \<open>/secure/usa\<close>, with three letters, matches no route.
\<close>

theorem route_dispatch:
  "fetch pf request env =
     (if pathname request = ''/secure'' then handleSecure pf request
      else case assetCode (pathname request) of
             Some code \<Rightarrow> handleCountryFlag code env
           | None \<Rightarrow> \<lparr>body = ''Not Found. Try /secure'', status = 404, headers = []\<rparr>)
   \<and> fetch pf \<lparr>pathname = ''/secure'', Cookie = c\<rparr> env
     = handleSecure pf \<lparr>pathname = ''/secure'', Cookie = c\<rparr>
   \<and> fetch pf \<lparr>pathname = ''/secure/us'', Cookie = c\<rparr> env = handleCountryFlag ''US'' env
   \<and> fetch pf \<lparr>pathname = ''/secure/US'', Cookie = c\<rparr> env = handleCountryFlag ''US'' env
   \<and> fetch pf \<lparr>pathname = ''/secure/usa'', Cookie = c\<rparr> env
     = \<lparr>body = ''Not Found. Try /secure'', status = 404, headers = []\<rparr>"
proof -
  have "fetch pf \<lparr>pathname = ''/secure'', Cookie = c\<rparr> env
     = handleSecure pf \<lparr>pathname = ''/secure'', Cookie = c\<rparr>"
    by (simp add: fetch_def)
  moreover have "fetch pf \<lparr>pathname = ''/secure/us'', Cookie = c\<rparr> env = handleCountryFlag ''US'' env"
    "fetch pf \<lparr>pathname = ''/secure/US'', Cookie = c\<rparr> env = handleCountryFlag ''US'' env"
    "fetch pf \<lparr>pathname = ''/secure/usa'', Cookie = c\<rparr> env
     = \<lparr>body = ''Not Found. Try /secure'', status = 404, headers = []\<rparr>"
    by (simp_all add: fetch_assetCode assetCode_examples)
  ultimately show ?thesis using fetch_assetCode [of pf request env] by (simp only: simp_thms)
qed

theorem route_dispatch_witness:
  "fetch samplePlatform \<lparr>pathname = ''/SECURE/ca'', Cookie = None\<rparr> sampleEnv
     = handleCountryFlag ''CA'' sampleEnv
   \<and> fetch samplePlatform \<lparr>pathname = ''/secure/u1'', Cookie = None\<rparr> sampleEnv
     = \<lparr>body = ''Not Found. Try /secure'', status = 404, headers = []\<rparr>
   \<and> fetch samplePlatform \<lparr>pathname = ''/secure/us'', Cookie = None\<rparr> sampleEnv
     = handleCountryFlag ''US'' sampleEnv"
  using route_dispatch [of samplePlatform "\<lparr>pathname = ''/SECURE/ca'', Cookie = None\<rparr>" sampleEnv None]
    route_dispatch [of samplePlatform "\<lparr>pathname = ''/secure/u1'', Cookie = None\<rparr>" sampleEnv None]
  by (simp add: assetCode_examples)

section \<open>The flag page\<close>

lemma concat_mem: "x \<in> set xs \<Longrightarrow> \<exists>pre post. concat xs = pre @ x @ post"
proof -
  assume "x \<in> set xs"
  then obtain ys zs where "xs = ys @ x # zs" by (auto dest: split_list)
  then have "concat xs = concat ys @ x @ concat zs" by simp
  then show ?thesis by blast
qed

lemma flagPage_embeds:
  \<open>\<exists>pre post. flagPage code b = pre @ ''data:image/png;base64,'' @ b @ ''"'' @ post\<close>
proof -
  let ?l = \<open>line 5 (''<img src="data:image/png;base64,'' @ b @ ''" alt="Flag of '' @ code @ ''">'')\<close>
  have l: \<open>?l = (replicate 5 (CHR 0x09) @ ''<img src="'') @ (''data:image/png;base64,'' @ b @ ''"'')
      @ ('' alt="Flag of '' @ code @ ''">'' @ [CHR 0x0A])\<close>
    by (simp add: line_def)
  have "\<exists>xs. flagPage code b = [CHR 0x0A] @ concat xs @ replicate 2 (CHR 0x09) \<and> ?l \<in> set xs"
    unfolding flagPage_def by (rule exI, rule conjI, rule refl) simp
  then obtain xs where f: "flagPage code b = [CHR 0x0A] @ concat xs @ replicate 2 (CHR 0x09)"
    and "?l \<in> set xs" by blast
  then obtain p q where "concat xs = p @ ?l @ q" using concat_mem by blast
  then have \<open>flagPage code b = ([CHR 0x0A] @ p @ replicate 5 (CHR 0x09) @ ''<img src="'')
      @ ''data:image/png;base64,'' @ b @ ''"''
      @ ('' alt="Flag of '' @ code @ ''">'' @ [CHR 0x0A] @ q @ replicate 2 (CHR 0x09))\<close>
    unfolding f l by simp
  then show ?thesis by blast
qed

text \<open>
  C8. Round trip: when the bucket holds the bytes \<open>B\<close> under the key of the code with the
  suffix \<open>.png\<close>, the page of \<open>handleCountryFlag\<close> for that code holds, between
  \<open>data:image/png;base64,\<close> and the closing quote, a base64 text that \<open>atob\<close> decodes
  to exactly the bytes \<open>B\<close>.
\<close>

theorem flag_roundtrip:
  assumes "FLAGS env (code @ ''.png'') = Inr (Some (Inr B))"
  shows \<open>\<exists>pre post payload.
           body (handleCountryFlag code env)
             = pre @ ''data:image/png;base64,'' @ payload @ ''"'' @ post
           \<and> payload = blobToBase64 B
           \<and> map_option (map charCode) (atob payload) = Some B\<close>
proof -
  have "body (handleCountryFlag code env) = flagPage code (blobToBase64 B)"
    using assms by (simp add: handleCountryFlag_def)
  then show ?thesis
    using flagPage_embeds [of code "blobToBase64 B"] blobToBase64_decodes [of B] by auto
qed

theorem flag_roundtrip_witness:
  \<open>FLAGS sampleEnv (''US'' @ ''.png'') = Inr (Some (Inr [0x89, 0x50, 0x4E, 0x47]))
   \<and> (\<exists>pre post payload.
         body (handleCountryFlag ''US'' sampleEnv)
           = pre @ ''data:image/png;base64,'' @ payload @ ''"'' @ post
         \<and> payload = blobToBase64 [0x89, 0x50, 0x4E, 0x47]
         \<and> map_option (map charCode) (atob payload) = Some [0x89, 0x50, 0x4E, 0x47])\<close>
proof -
  have h: "FLAGS sampleEnv (''US'' @ ''.png'') = Inr (Some (Inr [0x89, 0x50, 0x4E, 0x47]))"
    by (simp add: sampleEnv_def)
  from flag_roundtrip [OF h] h show ?thesis by blast
qed

section \<open>The token renderer: finding the credential\<close>

lemma split_not_Nil: "split sep s \<noteq> []"
  by (induction s) (auto split: list.splits)

lemma split_no_sep: "sep \<notin> set s \<Longrightarrow> split sep s = [s]"
  by (induction s) auto

lemma mem_split_no_sep: "x \<in> set (split sep s) \<Longrightarrow> sep \<notin> set x"
  by (induction s arbitrary: x) (auto split: if_splits list.splits)

lemma findToken_None:
  "\<forall>c \<in> set cs. \<not> prefix ''CF_Authorization='' (trim c) \<Longrightarrow> findToken cs = None"
  by (induction cs) (simp_all add: Let_def)

lemma findToken_first:
  "\<forall>p \<in> set pre. \<not> prefix ''CF_Authorization='' (trim p) \<Longrightarrow>
   prefix ''CF_Authorization='' (trim c) \<Longrightarrow>
   findToken (pre @ c # post) = Some (drop (length ''CF_Authorization='') (trim c))"
  by (induction pre) (simp_all add: Let_def)

text \<open>
  C3. When the request has no \<open>Cookie\<close> header, or no piece of the header between
  semicolons starts, once trimmed, with \<open>CF_Authorization=\<close>, \<open>handleSecure\<close> answers with
  the page \<open>Authentication Required\<close> and the status 401, whatever other cookies there are.
\<close>

theorem no_credential_unauthenticated:
  assumes "\<forall>h. Cookie request = Some h \<longrightarrow>
             (\<forall>c \<in> set (split (CHR '';'') h). \<not> prefix ''CF_Authorization='' (trim c))"
  shows "handleSecure pf request = unauthenticated \<and> status (handleSecure pf request) = 401"
proof -
  have "cookieToken (Cookie request) = None"
    using assms by (auto simp: cookieToken_def findToken_None split: option.splits)
  then show ?thesis by (simp add: handleSecure_def unauthenticated_def)
qed

lemma trim_examples:
  "trim ''session=abc'' = ''session=abc''" "trim '' theme=dark'' = ''theme=dark''"
  by (simp_all add: trim_def isWhiteSpace_def)

theorem no_credential_unauthenticated_witness:
  "split (CHR '';'') ''session=abc; theme=dark'' = [''session=abc'', '' theme=dark'']
   \<and> handleSecure samplePlatform \<lparr>pathname = ''/secure'', Cookie = Some ''session=abc; theme=dark''\<rparr>
       = unauthenticated
   \<and> handleSecure samplePlatform \<lparr>pathname = ''/secure'', Cookie = None\<rparr> = unauthenticated
   \<and> status unauthenticated = 401"
proof -
  have s: "split (CHR '';'') ''session=abc; theme=dark'' = [''session=abc'', '' theme=dark'']"
    by simp
  have 1: "\<forall>h. Cookie \<lparr>pathname = ''/secure'', Cookie = Some ''session=abc; theme=dark''\<rparr> = Some h \<longrightarrow>
             (\<forall>c \<in> set (split (CHR '';'') h). \<not> prefix ''CF_Authorization='' (trim c))"
    by (simp add: trim_examples del: split.simps add: s)
  have 2: "\<forall>h. Cookie \<lparr>pathname = ''/secure'', Cookie = None\<rparr> = Some h \<longrightarrow>
             (\<forall>c \<in> set (split (CHR '';'') h). \<not> prefix ''CF_Authorization='' (trim c))"
    by simp
  from no_credential_unauthenticated [OF 1, of samplePlatform]
    no_credential_unauthenticated [OF 2, of samplePlatform] s
  show ?thesis by (simp add: unauthenticated_def)
qed

lemma trim_not_Nil: "prefix ''CF_Authorization='' (trim c) \<Longrightarrow> c \<noteq> []"
  by (auto simp: trim_def)

text \<open>
  C9. When several pieces of the cookie header carry the credential, the first one from
  the left gives the token: the pieces after it are never read, and the response is the
  one for a header made of that piece alone.
\<close>

theorem first_credential_wins:
  assumes "split (CHR '';'') h = pre @ c # post"
    and "\<forall>p \<in> set pre. \<not> prefix ''CF_Authorization='' (trim p)"
    and "prefix ''CF_Authorization='' (trim c)"
  shows "cookieToken (Some h) = Some (drop (length ''CF_Authorization='') (trim c))
    \<and> handleSecure pf \<lparr>pathname = p, Cookie = Some h\<rparr>
        = handleSecure pf \<lparr>pathname = p, Cookie = Some c\<rparr>"
proof -
  have c: "c \<noteq> []" using assms(3) by (rule trim_not_Nil)
  have h: "h \<noteq> []"
  proof
    assume "h = []"
    with assms(1) have "pre @ c # post = [[]]" by simp
    then have "c = []" by (cases pre) auto
    with c show False by simp
  qed
  have 1: "cookieToken (Some h) = Some (drop (length ''CF_Authorization='') (trim c))"
    using h assms by (simp add: cookieToken_def findToken_first del: findToken.simps)
  have "c \<in> set (split (CHR '';'') h)" using assms(1) by simp
  then have "split (CHR '';'') c = [c]" by (intro split_no_sep mem_split_no_sep)
  then have 2: "cookieToken (Some c) = Some (drop (length ''CF_Authorization='') (trim c))"
    using c assms(3) by (simp add: cookieToken_def Let_def)
  show ?thesis using 1 2 by (simp add: handleSecure_def)
qed

lemma trim_examples2:
  "trim ''a=1'' = ''a=1''" "trim '' CF_Authorization=first'' = ''CF_Authorization=first''"
  by (simp_all add: trim_def isWhiteSpace_def)

theorem first_credential_wins_witness:
  "split (CHR '';'') ''a=1; CF_Authorization=first; CF_Authorization=second''
     = [''a=1''] @ '' CF_Authorization=first'' # ['' CF_Authorization=second'']
   \<and> cookieToken (Some ''a=1; CF_Authorization=first; CF_Authorization=second'') = Some ''first''"
proof -
  have s: "split (CHR '';'') ''a=1; CF_Authorization=first; CF_Authorization=second''
     = [''a=1''] @ '' CF_Authorization=first'' # ['' CF_Authorization=second'']"
    by simp
  have n: "\<forall>p \<in> set [''a=1'']. \<not> prefix ''CF_Authorization='' (trim p)"
    by (simp add: trim_examples2)
  have y: "prefix ''CF_Authorization='' (trim '' CF_Authorization=first'')"
    by (simp add: trim_examples2)
  from first_credential_wins [OF s n y] s show ?thesis by (simp add: trim_examples2)
qed

text \<open>
  C10. Two tokens of three segments with the same middle segment decode to the same
  result and get the same response: the first and the third segment are only counted.
\<close>

theorem signature_noninterference:
  assumes "length (split (CHR ''.'') t1) = 3" and "length (split (CHR ''.'') t2) = 3"
    and "split (CHR ''.'') t1 ! 1 = split (CHR ''.'') t2 ! 1"
    and "cookieToken c1 = Some t1" and "cookieToken c2 = Some t2"
  shows "decodeJWT pf t1 = decodeJWT pf t2
    \<and> handleSecure pf \<lparr>pathname = p, Cookie = c1\<rparr> = handleSecure pf \<lparr>pathname = p, Cookie = c2\<rparr>"
proof -
  have d: "decodeJWT pf t1 = decodeJWT pf t2"
    using assms(1-3) by (simp add: decodeJWT_def Let_def)
  have "t1 \<noteq> []" "t2 \<noteq> []" using assms(1,2) by auto
  then show ?thesis using d assms(4,5) by (simp add: handleSecure_def)
qed

lemma trim_examples3:
  "trim ''CF_Authorization=aaa.e30.bbb'' = ''CF_Authorization=aaa.e30.bbb''"
  "trim ''CF_Authorization=ccc.e30.ddd'' = ''CF_Authorization=ccc.e30.ddd''"
  by (simp_all add: trim_def isWhiteSpace_def)

theorem signature_noninterference_witness:
  "split (CHR ''.'') ''aaa.e30.bbb'' = [''aaa'', ''e30'', ''bbb'']
   \<and> split (CHR ''.'') ''ccc.e30.ddd'' = [''ccc'', ''e30'', ''ddd'']
   \<and> handleSecure samplePlatform \<lparr>pathname = ''/secure'', Cookie = Some ''CF_Authorization=aaa.e30.bbb''\<rparr>
     = handleSecure samplePlatform \<lparr>pathname = ''/secure'', Cookie = Some ''CF_Authorization=ccc.e30.ddd''\<rparr>"
proof -
  have s1: "split (CHR ''.'') ''aaa.e30.bbb'' = [''aaa'', ''e30'', ''bbb'']"
    and s2: "split (CHR ''.'') ''ccc.e30.ddd'' = [''ccc'', ''e30'', ''ddd'']" by simp_all
  have c1: "cookieToken (Some ''CF_Authorization=aaa.e30.bbb'') = Some ''aaa.e30.bbb''"
    and c2: "cookieToken (Some ''CF_Authorization=ccc.e30.ddd'') = Some ''ccc.e30.ddd''"
    by (simp_all add: cookieToken_def trim_examples3 Let_def)
  have "length (split (CHR ''.'') ''aaa.e30.bbb'') = 3" "length (split (CHR ''.'') ''ccc.e30.ddd'') = 3"
    "split (CHR ''.'') ''aaa.e30.bbb'' ! 1 = split (CHR ''.'') ''ccc.e30.ddd'' ! 1"
    unfolding s1 s2 by simp_all
  from signature_noninterference [OF this c1 c2, of samplePlatform "''/secure''"] s1 s2
  show ?thesis by simp
qed

section \<open>The token renderer: decoding the token\<close>

lemma cookieToken_credential:
  "\<not> (\<exists>c \<in> set t. c = CHR '';'' \<or> isWhiteSpace c) \<Longrightarrow>
   cookieToken (Some (''CF_Authorization='' @ t)) = Some t"
proof -
  assume a: "\<not> (\<exists>c \<in> set t. c = CHR '';'' \<or> isWhiteSpace c)"
  let ?h = "''CF_Authorization='' @ t"
  have "CHR '';'' \<notin> set ?h" using a by auto
  then have s: "split (CHR '';'') ?h = [?h]" by (rule split_no_sep)
  have "dropWhile isWhiteSpace (rev t @ rev ''CF_Authorization='') = rev t @ rev ''CF_Authorization=''"
    using a by (cases "rev t") (auto simp: isWhiteSpace_def)
  then have "trim ?h = ?h"
    by (simp add: trim_def isWhiteSpace_def)
  then show ?thesis
    unfolding cookieToken_def using s by (simp add: Let_def)
qed

lemma sample_tokens:
  "cookieToken (Some ''CF_Authorization='') = Some []"
  "cookieToken (Some ''CF_Authorization=a.b'') = Some ''a.b''"
  "cookieToken (Some ''CF_Authorization=a.b.c.d'') = Some ''a.b.c.d''"
  "cookieToken (Some ''CF_Authorization=a.!!!.c'') = Some ''a.!!!.c''"
  "cookieToken (Some ''CF_Authorization=a.e3s.c'') = Some ''a.e3s.c''"
  "cookieToken (Some ''CF_Authorization=h.NDI.s'') = Some ''h.NDI.s''"
  "cookieToken (Some ''CF_Authorization=h.bnVsbA.s'') = Some ''h.bnVsbA.s''"
  using cookieToken_credential [of "[]"] cookieToken_credential [of "''a.b''"]
    cookieToken_credential [of "''a.b.c.d''"] cookieToken_credential [of "''a.!!!.c''"]
    cookieToken_credential [of "''a.e3s.c''"] cookieToken_credential [of "''h.NDI.s''"]
    cookieToken_credential [of "''h.bnVsbA.s''"]
  by (simp_all add: isWhiteSpace_def)

lemma handleSecure_no_token:
  "cookieToken (Cookie request) = None \<or> cookieToken (Cookie request) = Some [] \<Longrightarrow>
   handleSecure pf request = unauthenticated"
  by (auto simp: handleSecure_def)

lemma handleSecure_thrown:
  assumes "cookieToken (Cookie request) = Some jwt" and "jwt \<noteq> []"
    and "decodeJWT pf jwt = Inl e"
  shows "handleSecure pf request =
    \<lparr>body = renderHTML ''Error'' (''<p>Error parsing JWT: '' @ message e @ ''</p>''),
     status = 500, headers = htmlHeaders\<rparr>"
  using assms by (simp add: handleSecure_def)

lemma handleSecure_null:
  assumes "cookieToken (Cookie request) = Some jwt" and "jwt \<noteq> []"
    and "decodeJWT pf jwt = Inr JsonNull"
  shows "handleSecure pf request =
    \<lparr>body = renderHTML ''Error'' (''<p>Error parsing JWT: '' @ message (null_error pf) @ ''</p>''),
     status = 500, headers = htmlHeaders\<rparr>"
  using assms by (simp add: handleSecure_def readClaims_def)

lemma handleSecure_claims:
  assumes "cookieToken (Cookie request) = Some jwt" and "jwt \<noteq> []"
    and "decodeJWT pf jwt = Inr v" and "readClaims pf v = Inr claims"
  shows \<open>handleSecure pf request =
    \<lparr>body = renderHTML ''Authentication Info''
       (''<p>'' @ orUnknown (email claims) @ '' authenticated at ''
        @ (case iat claims of None \<Rightarrow> ''Unknown''
           | Some t \<Rightarrow> if t = 0 then ''Unknown'' else toUTCString (t * 1000))
        @ '' from <a href="/secure/'' @ orUnknown (country claims) @ ''">''
        @ orUnknown (country claims) @ ''</a></p>''),
     status = 200, headers = htmlHeaders\<rparr>\<close>
  using assms by (simp add: handleSecure_def Let_def)

lemma handleSecure_non_object:
  assumes "cookieToken (Cookie request) = Some jwt" and "jwt \<noteq> []"
    and "decodeJWT pf jwt = Inr JsonNonObject"
  shows \<open>handleSecure pf request =
    \<lparr>body = renderHTML ''Authentication Info''
       ''<p>Unknown authenticated at Unknown from <a href="/secure/Unknown">Unknown</a></p>'',
     status = 200, headers = htmlHeaders\<rparr>\<close>
proof -
  have r: "readClaims pf JsonNonObject
      = Inr \<lparr>email = None, iat = None, country = None, sub = None\<rparr>"
    by (simp add: readClaims_def)
  show ?thesis
    unfolding handleSecure_claims [OF assms r] by (simp add: orUnknown_def)
qed

lemma decodeJWT_parts:
  assumes "length (split (CHR ''.'') jwt) = 3"
  shows "decodeJWT pf jwt =
    (case atob (replaceAll (CHR ''_'') (CHR ''/'')
                 (replaceAll (CHR ''-'') (CHR ''+'') (split (CHR ''.'') jwt ! 1))) of
       None \<Rightarrow> Inl (atob_error pf)
     | Some d \<Rightarrow> JSON_parse pf d)"
  using assms by (simp add: decodeJWT_def Let_def)

lemma trim_credential: "trim ''CF_Authorization='' = ''CF_Authorization=''"
  by (simp add: trim_def isWhiteSpace_def)

text \<open>
  C4, as stated, fails at the empty token: \<open>CF_Authorization=\<close> carries the token \<open>''\<close>,
  which splits into one segment, and the guard \<open>if (!jwtToken)\<close> answers it with the
  page of the missing credential, status 401, before \<open>decodeJWT\<close> is called.
\<close>

theorem empty_token_counterexample:
  "cookieToken (Some ''CF_Authorization='') = Some []
   \<and> length (split (CHR ''.'') []) = 1
   \<and> handleSecure samplePlatform \<lparr>pathname = ''/secure'', Cookie = Some ''CF_Authorization=''\<rparr>
       = unauthenticated
   \<and> status unauthenticated = 401"
  by (simp add: sample_tokens handleSecure_def unauthenticated_def)

text \<open>
  C4, amended. For every token whose split on the dot does not give exactly three
  segments, \<open>decodeJWT\<close> throws \<open>Error('Invalid JWT format')\<close>, nothing else; when the token
  is not empty, \<open>handleSecure\<close> answers with the error page of that message and status
  500; when it is empty, \<open>handleSecure\<close> answers as for a missing credential, with the
  page of status 401.
\<close>

theorem malformed_token:
  assumes "cookieToken (Cookie request) = Some jwt"
    and "length (split (CHR ''.'') jwt) \<noteq> 3"
  shows "decodeJWT pf jwt = Inl (JsError ''Error'' ''Invalid JWT format'')
    \<and> (jwt \<noteq> [] \<longrightarrow>
         handleSecure pf request
           = \<lparr>body = renderHTML ''Error'' ''<p>Error parsing JWT: Invalid JWT format</p>'',
              status = 500, headers = htmlHeaders\<rparr>)
    \<and> (jwt = [] \<longrightarrow> handleSecure pf request = unauthenticated \<and> status unauthenticated = 401)"
proof -
  have d: "decodeJWT pf jwt = Inl (JsError ''Error'' ''Invalid JWT format'')"
    using assms(2) by (simp add: decodeJWT_def)
  have 1: "handleSecure pf request
           = \<lparr>body = renderHTML ''Error'' ''<p>Error parsing JWT: Invalid JWT format</p>'',
              status = 500, headers = htmlHeaders\<rparr>" if "jwt \<noteq> []"
    using handleSecure_thrown [OF assms(1) that d] by simp
  have 2: "handleSecure pf request = unauthenticated" if "jwt = []"
    using assms(1) that by (simp add: handleSecure_no_token)
  have 3: "status unauthenticated = 401" by (simp add: unauthenticated_def)
  from d 1 2 3 show ?thesis by blast
qed

theorem malformed_token_witness:
  "length (split (CHR ''.'') ''a.b'') = 2 \<and> length (split (CHR ''.'') ''a.b.c.d'') = 4
   \<and> status (handleSecure samplePlatform \<lparr>pathname = ''/secure'', Cookie = Some ''CF_Authorization=a.b''\<rparr>) = 500
   \<and> handleSecure samplePlatform \<lparr>pathname = ''/secure'', Cookie = Some ''CF_Authorization=a.b.c.d''\<rparr>
       = \<lparr>body = renderHTML ''Error'' ''<p>Error parsing JWT: Invalid JWT format</p>'',
          status = 500, headers = htmlHeaders\<rparr>
   \<and> cookieToken (Some ''CF_Authorization=; CF_Authorization=h.e30.s'') = Some []
   \<and> handleSecure samplePlatform
         \<lparr>pathname = ''/secure'', Cookie = Some ''CF_Authorization=; CF_Authorization=h.e30.s''\<rparr>
       = unauthenticated"
proof -
  let ?r1 = "\<lparr>pathname = ''/secure'', Cookie = Some ''CF_Authorization=a.b''\<rparr>"
  let ?r2 = "\<lparr>pathname = ''/secure'', Cookie = Some ''CF_Authorization=a.b.c.d''\<rparr>"
  let ?r3 = "\<lparr>pathname = ''/secure'', Cookie = Some ''CF_Authorization=; CF_Authorization=h.e30.s''\<rparr>"
  have l: "length (split (CHR ''.'') ''a.b'') = 2" "length (split (CHR ''.'') ''a.b.c.d'') = 4"
    "length (split (CHR ''.'') []) = 1"
    by simp_all
  have n: "length (split (CHR ''.'') ''a.b'') \<noteq> 3" "length (split (CHR ''.'') ''a.b.c.d'') \<noteq> 3"
    "length (split (CHR ''.'') []) \<noteq> 3"
    unfolding l by simp_all
  have t1: "cookieToken (Cookie ?r1) = Some ''a.b''"
    and t2: "cookieToken (Cookie ?r2) = Some ''a.b.c.d''"
    by (simp_all add: sample_tokens)
  have s3: "split (CHR '';'') ''CF_Authorization=; CF_Authorization=h.e30.s''
      = [''CF_Authorization='', '' CF_Authorization=h.e30.s'']" by simp
  have c3: "cookieToken (Some ''CF_Authorization=; CF_Authorization=h.e30.s'') = Some []"
    unfolding cookieToken_def s3 by (simp add: trim_credential)
  then have t3: "cookieToken (Cookie ?r3) = Some []" by simp
  from malformed_token [OF t1 n(1), of samplePlatform]
  have 1: "status (handleSecure samplePlatform ?r1) = 500" by simp
  from malformed_token [OF t2 n(2), of samplePlatform]
  have 2: "handleSecure samplePlatform ?r2
       = \<lparr>body = renderHTML ''Error'' ''<p>Error parsing JWT: Invalid JWT format</p>'',
          status = 500, headers = htmlHeaders\<rparr>" by simp
  from malformed_token [OF t3 n(3), of samplePlatform]
  have 3: "handleSecure samplePlatform ?r3 = unauthenticated" by simp
  from l(1,2) 1 2 c3 3 show ?thesis by (intro conjI)
qed

lemma atob_examples:
  "atob ''!!!'' = None" "atob ''e3s'' = Some ''{{''" "atob ''NDI'' = Some ''42''"
  "atob ''bnVsbA'' = Some ''null''"
  by code_simp+

lemma sample_parses:
  "JSON_parse samplePlatform ''{{'' = Inl (JsError ''SyntaxError'' ''Unexpected token'')"
  "JSON_parse samplePlatform ''42'' = Inr JsonNonObject"
  "JSON_parse samplePlatform ''null'' = Inr JsonNull"
  by (simp_all add: samplePlatform_def sampleParse_def)

lemma sample_middle:
  "split (CHR ''.'') ''a.!!!.c'' = [''a'', ''!!!'', ''c'']"
  "split (CHR ''.'') ''a.e3s.c'' = [''a'', ''e3s'', ''c'']"
  "split (CHR ''.'') ''h.NDI.s'' = [''h'', ''NDI'', ''s'']"
  "split (CHR ''.'') ''h.bnVsbA.s'' = [''h'', ''bnVsbA'', ''s'']"
  by simp_all

lemma sample_urlsafe:
  "replaceAll (CHR ''_'') (CHR ''/'') (replaceAll (CHR ''-'') (CHR ''+'') ''!!!'') = ''!!!''"
  "replaceAll (CHR ''_'') (CHR ''/'') (replaceAll (CHR ''-'') (CHR ''+'') ''e3s'') = ''e3s''"
  "replaceAll (CHR ''_'') (CHR ''/'') (replaceAll (CHR ''-'') (CHR ''+'') ''NDI'') = ''NDI''"
  "replaceAll (CHR ''_'') (CHR ''/'') (replaceAll (CHR ''-'') (CHR ''+'') ''bnVsbA'') = ''bnVsbA''"
  by (simp_all add: replaceAll_def)

text \<open>
  C5, as stated, fails for decoded bytes that are JSON but no record: the middle segment
  \<open>NDI\<close> decodes to \<open>42\<close>, which \<open>JSON.parse\<close> accepts, and \<open>handleSecure\<close> answers with the
  claims page of status 200, every field \<open>Unknown\<close>.
\<close>

theorem non_record_counterexample:
  \<open>atob ''NDI'' = Some ''42''
   \<and> JSON_parse samplePlatform ''42'' = Inr JsonNonObject
   \<and> handleSecure samplePlatform \<lparr>pathname = ''/secure'', Cookie = Some ''CF_Authorization=h.NDI.s''\<rparr>
     = \<lparr>body = renderHTML ''Authentication Info''
         ''<p>Unknown authenticated at Unknown from <a href="/secure/Unknown">Unknown</a></p>'',
        status = 200, headers = htmlHeaders\<rparr>\<close>
proof -
  let ?r = "\<lparr>pathname = ''/secure'', Cookie = Some ''CF_Authorization=h.NDI.s''\<rparr>"
  have t: "cookieToken (Cookie ?r) = Some ''h.NDI.s''" by (simp add: sample_tokens)
  have n: "''h.NDI.s'' \<noteq> []" by simp
  have l: "length (split (CHR ''.'') ''h.NDI.s'') = 3" unfolding sample_middle by simp
  have d: "decodeJWT samplePlatform ''h.NDI.s'' = Inr JsonNonObject"
    unfolding decodeJWT_parts [OF l] sample_middle
    by (simp add: sample_urlsafe atob_examples sample_parses)
  from handleSecure_non_object [OF t n d] atob_examples(3) sample_parses(2)
  show ?thesis by (intro conjI)
qed

text \<open>
  C5, amended. For every token of three segments whose middle segment, after \<open>-\<close> and \<open>_\<close>
  have become \<open>+\<close> and \<open>/\<close>, is refused by \<open>atob\<close>, or decodes to a text that \<open>JSON.parse\<close>
  refuses, \<open>decodeJWT\<close> throws that error and \<open>handleSecure\<close> answers with the error page of
  its message and status 500; so it does, with the \<open>TypeError\<close> of the first property read,
  when the text is \<open>null\<close>. A text that is JSON for a boolean, a number, a string or an
  array is no error: the page is the claims page with every field \<open>Unknown\<close>.
\<close>

theorem decode_error:
  assumes "cookieToken (Cookie request) = Some jwt" and "length (split (CHR ''.'') jwt) = 3"
    and "base64 = replaceAll (CHR ''_'') (CHR ''/'')
                    (replaceAll (CHR ''-'') (CHR ''+'') (split (CHR ''.'') jwt ! 1))"
  shows \<open>((atob base64 = None \<and> e = atob_error pf)
           \<or> (\<exists>d. atob base64 = Some d \<and> JSON_parse pf d = Inl e)
          \<longrightarrow> decodeJWT pf jwt = Inl e)
    \<and> ((atob base64 = None \<and> e = atob_error pf)
           \<or> (\<exists>d. atob base64 = Some d
                 \<and> (JSON_parse pf d = Inl e
                     \<or> (JSON_parse pf d = Inr JsonNull \<and> e = null_error pf)))
          \<longrightarrow> handleSecure pf request
              = \<lparr>body = renderHTML ''Error'' (''<p>Error parsing JWT: '' @ message e @ ''</p>''),
                 status = 500, headers = htmlHeaders\<rparr>)
    \<and> ((\<exists>d. atob base64 = Some d \<and> JSON_parse pf d = Inr JsonNonObject)
          \<longrightarrow> handleSecure pf request
              = \<lparr>body = renderHTML ''Authentication Info''
                   ''<p>Unknown authenticated at Unknown from <a href="/secure/Unknown">Unknown</a></p>'',
                 status = 200, headers = htmlHeaders\<rparr>)\<close>
proof -
  have n: "jwt \<noteq> []" using assms(2) by auto
  note p = decodeJWT_parts [OF assms(2), of pf, folded assms(3)]
  have 1: "decodeJWT pf jwt = Inl e"
    if "(atob base64 = None \<and> e = atob_error pf)
        \<or> (\<exists>d. atob base64 = Some d \<and> JSON_parse pf d = Inl e)"
    using that unfolding p by auto
  have 2: "handleSecure pf request
      = \<lparr>body = renderHTML ''Error'' (''<p>Error parsing JWT: '' @ message e @ ''</p>''),
         status = 500, headers = htmlHeaders\<rparr>"
    if h: "(atob base64 = None \<and> e = atob_error pf)
        \<or> (\<exists>d. atob base64 = Some d
              \<and> (JSON_parse pf d = Inl e \<or> (JSON_parse pf d = Inr JsonNull \<and> e = null_error pf)))"
  proof -
    from h consider "decodeJWT pf jwt = Inl e"
      | "decodeJWT pf jwt = Inr JsonNull" "e = null_error pf"
      unfolding p by auto
    then show ?thesis
    proof cases
      case 1
      then show ?thesis by (rule handleSecure_thrown [OF assms(1) n])
    next
      case 2
      from handleSecure_null [OF assms(1) n 2(1)] 2(2) show ?thesis by simp
    qed
  qed
  have 3: \<open>handleSecure pf request
      = \<lparr>body = renderHTML ''Authentication Info''
           ''<p>Unknown authenticated at Unknown from <a href="/secure/Unknown">Unknown</a></p>'',
         status = 200, headers = htmlHeaders\<rparr>\<close>
    if h: "\<exists>d. atob base64 = Some d \<and> JSON_parse pf d = Inr JsonNonObject"
  proof -
    from h have "decodeJWT pf jwt = Inr JsonNonObject" unfolding p by auto
    then show ?thesis by (rule handleSecure_non_object [OF assms(1) n])
  qed
  from 1 2 3 show ?thesis by (intro conjI impI)
qed

theorem decode_error_witness:
  "atob ''!!!'' = None \<and> atob ''e3s'' = Some ''{{''
   \<and> JSON_parse samplePlatform ''{{'' = Inl (JsError ''SyntaxError'' ''Unexpected token'')
   \<and> handleSecure samplePlatform \<lparr>pathname = ''/secure'', Cookie = Some ''CF_Authorization=a.!!!.c''\<rparr>
       = \<lparr>body = renderHTML ''Error'' ''<p>Error parsing JWT: Invalid character</p>'',
          status = 500, headers = htmlHeaders\<rparr>
   \<and> handleSecure samplePlatform \<lparr>pathname = ''/secure'', Cookie = Some ''CF_Authorization=a.e3s.c''\<rparr>
       = \<lparr>body = renderHTML ''Error'' ''<p>Error parsing JWT: Unexpected token</p>'',
          status = 500, headers = htmlHeaders\<rparr>
   \<and> handleSecure samplePlatform \<lparr>pathname = ''/secure'', Cookie = Some ''CF_Authorization=h.bnVsbA.s''\<rparr>
       = \<lparr>body = renderHTML ''Error'' ''<p>Error parsing JWT: Cannot read properties of null</p>'',
          status = 500, headers = htmlHeaders\<rparr>
   \<and> status (handleSecure samplePlatform
         \<lparr>pathname = ''/secure'', Cookie = Some ''CF_Authorization=h.NDI.s''\<rparr>) = 200"
proof -
  let ?r1 = "\<lparr>pathname = ''/secure'', Cookie = Some ''CF_Authorization=a.!!!.c''\<rparr>"
  let ?r2 = "\<lparr>pathname = ''/secure'', Cookie = Some ''CF_Authorization=a.e3s.c''\<rparr>"
  let ?r3 = "\<lparr>pathname = ''/secure'', Cookie = Some ''CF_Authorization=h.bnVsbA.s''\<rparr>"
  let ?r4 = "\<lparr>pathname = ''/secure'', Cookie = Some ''CF_Authorization=h.NDI.s''\<rparr>"
  have m: "message (atob_error samplePlatform) = ''Invalid character''"
    "message (null_error samplePlatform) = ''Cannot read properties of null''"
    by (simp_all add: samplePlatform_def)
  have a1: "cookieToken (Cookie ?r1) = Some ''a.!!!.c''"
    and a2: "cookieToken (Cookie ?r2) = Some ''a.e3s.c''"
    and a3: "cookieToken (Cookie ?r3) = Some ''h.bnVsbA.s''"
    and a4: "cookieToken (Cookie ?r4) = Some ''h.NDI.s''"
    by (simp_all add: sample_tokens)
  have b1: "length (split (CHR ''.'') ''a.!!!.c'') = 3"
    and b2: "length (split (CHR ''.'') ''a.e3s.c'') = 3"
    and b3: "length (split (CHR ''.'') ''h.bnVsbA.s'') = 3"
    and b4: "length (split (CHR ''.'') ''h.NDI.s'') = 3"
    unfolding sample_middle by simp_all
  have c1: "''!!!'' = replaceAll (CHR ''_'') (CHR ''/'')
                    (replaceAll (CHR ''-'') (CHR ''+'') (split (CHR ''.'') ''a.!!!.c'' ! 1))"
    and c2: "''e3s'' = replaceAll (CHR ''_'') (CHR ''/'')
                    (replaceAll (CHR ''-'') (CHR ''+'') (split (CHR ''.'') ''a.e3s.c'' ! 1))"
    and c3: "''bnVsbA'' = replaceAll (CHR ''_'') (CHR ''/'')
                    (replaceAll (CHR ''-'') (CHR ''+'') (split (CHR ''.'') ''h.bnVsbA.s'' ! 1))"
    and c4: "''NDI'' = replaceAll (CHR ''_'') (CHR ''/'')
                    (replaceAll (CHR ''-'') (CHR ''+'') (split (CHR ''.'') ''h.NDI.s'' ! 1))"
    unfolding sample_middle by (simp_all add: sample_urlsafe)
  from decode_error [OF a1 b1 c1, of "atob_error samplePlatform" samplePlatform]
  have 1: "handleSecure samplePlatform ?r1
       = \<lparr>body = renderHTML ''Error'' ''<p>Error parsing JWT: Invalid character</p>'',
          status = 500, headers = htmlHeaders\<rparr>"
    by (simp add: atob_examples m)
  from decode_error [OF a2 b2 c2, of "JsError ''SyntaxError'' ''Unexpected token''" samplePlatform]
  have 2: "handleSecure samplePlatform ?r2
       = \<lparr>body = renderHTML ''Error'' ''<p>Error parsing JWT: Unexpected token</p>'',
          status = 500, headers = htmlHeaders\<rparr>"
    by (simp add: atob_examples sample_parses)
  from decode_error [OF a3 b3 c3, of "null_error samplePlatform" samplePlatform]
  have 3: "handleSecure samplePlatform ?r3
       = \<lparr>body = renderHTML ''Error'' ''<p>Error parsing JWT: Cannot read properties of null</p>'',
          status = 500, headers = htmlHeaders\<rparr>"
    by (simp add: atob_examples sample_parses m)
  from decode_error [OF a4 b4 c4, of "atob_error samplePlatform" samplePlatform]
  have 4: "status (handleSecure samplePlatform ?r4) = 200"
    by (simp add: atob_examples sample_parses)
  from atob_examples(1,2) sample_parses(1) 1 2 3 4 show ?thesis by (intro conjI)
qed

section \<open>The token renderer: the page of the claims\<close>

lemma handleSecure_success:
  assumes "cookieToken (Cookie request) = Some jwt" and "jwt \<noteq> []"
    and "decodeJWT pf jwt = Inr (JsonObject payload)"
  shows \<open>handleSecure pf request =
    \<lparr>body = renderHTML ''Authentication Info''
       (''<p>'' @ orUnknown (email payload) @ '' authenticated at ''
        @ (case iat payload of None \<Rightarrow> ''Unknown''
           | Some t \<Rightarrow> if t = 0 then ''Unknown'' else toUTCString (t * 1000))
        @ '' from <a href="/secure/'' @ orUnknown (country payload) @ ''">''
        @ orUnknown (country payload) @ ''</a></p>''),
     status = 200, headers = htmlHeaders\<rparr>\<close>
proof -
  have "readClaims pf (JsonObject payload) = Inr payload" by (simp add: readClaims_def)
  from handleSecure_claims [OF assms this] show ?thesis .
qed

lemma renderHTML_content:
  "\<exists>pre post. renderHTML title content = pre @ content @ post"
proof -
  have "\<exists>xs. renderHTML title content = [CHR 0x0A] @ concat xs @ replicate 1 (CHR 0x09)
          \<and> line 3 content \<in> set xs"
    unfolding renderHTML_def by (rule exI, rule conjI, rule refl) simp
  then obtain xs where f: "renderHTML title content = [CHR 0x0A] @ concat xs @ replicate 1 (CHR 0x09)"
    and "line 3 content \<in> set xs" by blast
  then obtain p q where "concat xs = p @ line 3 content @ q" using concat_mem by blast
  then have "renderHTML title content = ([CHR 0x0A] @ p @ replicate 3 (CHR 0x09)) @ content
      @ ([CHR 0x0A] @ q @ replicate 1 (CHR 0x09))"
    unfolding f by (simp add: line_def)
  then show ?thesis by blast
qed

lemma sublist_renderHTML:
  "sublist s content \<Longrightarrow> sublist s (renderHTML title content)"
proof -
  assume "sublist s content"
  moreover have "sublist content (renderHTML title content)"
    using renderHTML_content [of title content] by (auto simp: sublist_def)
  ultimately show ?thesis by (rule sublist_order.order_trans)
qed

lemma sample_decode:
  \<open>atob ''eyJlbWFpbCI6ImFAYi5jb20iLCJpYXQiOjE2OTYyNzI2MTUsImNvdW50cnkiOiJVUyJ9''
     = Some ''{"email":"a@b.com","iat":1696272615,"country":"US"}''\<close>
  \<open>atob ''eyJlbWFpbCI6IjxzY3JpcHQ+In0'' = Some ''{"email":"<script>"}''\<close>
  \<open>atob ''e30'' = Some ''{}''\<close>
  by code_simp+

lemma sample_date: "toUTCString 1696272615000 = ''Mon, 02 Oct 2023 18:50:15 GMT''"
  by code_simp

lemma sample_cookies:
  "cookieToken (Some ''CF_Authorization=h.eyJlbWFpbCI6ImFAYi5jb20iLCJpYXQiOjE2OTYyNzI2MTUsImNvdW50cnkiOiJVUyJ9.s'')
     = Some ''h.eyJlbWFpbCI6ImFAYi5jb20iLCJpYXQiOjE2OTYyNzI2MTUsImNvdW50cnkiOiJVUyJ9.s''"
  "cookieToken (Some ''CF_Authorization=h.eyJlbWFpbCI6IjxzY3JpcHQ-In0.s'')
     = Some ''h.eyJlbWFpbCI6IjxzY3JpcHQ-In0.s''"
  "cookieToken (Some ''CF_Authorization=h.e30.s'') = Some ''h.e30.s''"
  using cookieToken_credential [of "''h.eyJlbWFpbCI6ImFAYi5jb20iLCJpYXQiOjE2OTYyNzI2MTUsImNvdW50cnkiOiJVUyJ9.s''"]
    cookieToken_credential [of "''h.eyJlbWFpbCI6IjxzY3JpcHQ-In0.s''"]
    cookieToken_credential [of "''h.e30.s''"]
  by (simp_all add: isWhiteSpace_def)

lemma sample_splits:
  "split (CHR ''.'') ''h.eyJlbWFpbCI6ImFAYi5jb20iLCJpYXQiOjE2OTYyNzI2MTUsImNvdW50cnkiOiJVUyJ9.s''
     = [''h'', ''eyJlbWFpbCI6ImFAYi5jb20iLCJpYXQiOjE2OTYyNzI2MTUsImNvdW50cnkiOiJVUyJ9'', ''s'']"
  "split (CHR ''.'') ''h.eyJlbWFpbCI6IjxzY3JpcHQ-In0.s'' = [''h'', ''eyJlbWFpbCI6IjxzY3JpcHQ-In0'', ''s'']"
  "split (CHR ''.'') ''h.e30.s'' = [''h'', ''e30'', ''s'']"
  by simp_all

lemma sample_replace:
  "replaceAll (CHR ''_'') (CHR ''/'') (replaceAll (CHR ''-'') (CHR ''+'')
     ''eyJlbWFpbCI6ImFAYi5jb20iLCJpYXQiOjE2OTYyNzI2MTUsImNvdW50cnkiOiJVUyJ9'')
   = ''eyJlbWFpbCI6ImFAYi5jb20iLCJpYXQiOjE2OTYyNzI2MTUsImNvdW50cnkiOiJVUyJ9''"
  "replaceAll (CHR ''_'') (CHR ''/'') (replaceAll (CHR ''-'') (CHR ''+'') ''eyJlbWFpbCI6IjxzY3JpcHQ-In0'')
   = ''eyJlbWFpbCI6IjxzY3JpcHQ+In0''"
  "replaceAll (CHR ''_'') (CHR ''/'') (replaceAll (CHR ''-'') (CHR ''+'') ''e30'') = ''e30''"
  by (simp_all add: replaceAll_def)

lemma sample_decodeJWT:
  "decodeJWT samplePlatform ''h.eyJlbWFpbCI6ImFAYi5jb20iLCJpYXQiOjE2OTYyNzI2MTUsImNvdW50cnkiOiJVUyJ9.s''
     = Inr (JsonObject
         \<lparr>email = Some ''a@b.com'', iat = Some 1696272615, country = Some ''US'', sub = None\<rparr>)"
  "decodeJWT samplePlatform ''h.eyJlbWFpbCI6IjxzY3JpcHQ-In0.s''
     = Inr (JsonObject \<lparr>email = Some ''<script>'', iat = None, country = None, sub = None\<rparr>)"
  "decodeJWT samplePlatform ''h.e30.s''
     = Inr (JsonObject \<lparr>email = None, iat = None, country = None, sub = None\<rparr>)"
  unfolding decodeJWT_def sample_splits Let_def
  by (simp_all add: sample_replace sample_decode samplePlatform_def sampleParse_def)

text \<open>
  C1 asks that every interpolated value be escaped, so that a claim field holding
  \<open><script>\<close> leaves no such tag in the page. \<open>handleSecure\<close> does not do it: for the
  claims whose email is \<open><script>\<close> the page holds the tag as it is, right after the opening
  \<open><p>\<close> of the message.
\<close>

theorem script_not_escaped:
  \<open>decodeJWT samplePlatform ''h.eyJlbWFpbCI6IjxzY3JpcHQ-In0.s''
     = Inr (JsonObject \<lparr>email = Some ''<script>'', iat = None, country = None, sub = None\<rparr>)
   \<and> body (handleSecure samplePlatform
         \<lparr>pathname = ''/secure'', Cookie = Some ''CF_Authorization=h.eyJlbWFpbCI6IjxzY3JpcHQ-In0.s''\<rparr>)
     = renderHTML ''Authentication Info''
         ''<p><script> authenticated at Unknown from <a href="/secure/Unknown">Unknown</a></p>''
   \<and> sublist ''<p><script> authenticated at ''
       (body (handleSecure samplePlatform
          \<lparr>pathname = ''/secure'', Cookie = Some ''CF_Authorization=h.eyJlbWFpbCI6IjxzY3JpcHQ-In0.s''\<rparr>))\<close>
proof -
  let ?r = "\<lparr>pathname = ''/secure'', Cookie = Some ''CF_Authorization=h.eyJlbWFpbCI6IjxzY3JpcHQ-In0.s''\<rparr>"
  have c: "cookieToken (Cookie ?r) = Some ''h.eyJlbWFpbCI6IjxzY3JpcHQ-In0.s''"
    by (simp add: sample_cookies)
  have n: "''h.eyJlbWFpbCI6IjxzY3JpcHQ-In0.s'' \<noteq> []" by simp
  have b: \<open>body (handleSecure samplePlatform ?r)
     = renderHTML ''Authentication Info''
         ''<p><script> authenticated at Unknown from <a href="/secure/Unknown">Unknown</a></p>''\<close>
    unfolding handleSecure_success [OF c n sample_decodeJWT(2)] by (simp add: orUnknown_def)
  have \<open>sublist ''<p><script> authenticated at ''
          ''<p><script> authenticated at Unknown from <a href="/secure/Unknown">Unknown</a></p>''\<close>
    by (simp add: sublist_Cons_right)
  then have s: \<open>sublist ''<p><script> authenticated at '' (body (handleSecure samplePlatform ?r))\<close>
    unfolding b by (rule sublist_renderHTML)
  from sample_decodeJWT(2) b s show ?thesis by (intro conjI)
qed

lemma sample_page:
  \<open>body (handleSecure samplePlatform
      \<lparr>pathname = ''/secure'',
       Cookie = Some ''CF_Authorization=h.eyJlbWFpbCI6ImFAYi5jb20iLCJpYXQiOjE2OTYyNzI2MTUsImNvdW50cnkiOiJVUyJ9.s''\<rparr>)
   = renderHTML ''Authentication Info''
       ''<p>a@b.com authenticated at Mon, 02 Oct 2023 18:50:15 GMT from <a href="/secure/US">US</a></p>''\<close>
proof -
  let ?r = "\<lparr>pathname = ''/secure'',
       Cookie = Some ''CF_Authorization=h.eyJlbWFpbCI6ImFAYi5jb20iLCJpYXQiOjE2OTYyNzI2MTUsImNvdW50cnkiOiJVUyJ9.s''\<rparr>"
  have c: "cookieToken (Cookie ?r)
      = Some ''h.eyJlbWFpbCI6ImFAYi5jb20iLCJpYXQiOjE2OTYyNzI2MTUsImNvdW50cnkiOiJVUyJ9.s''"
    by (simp add: sample_cookies)
  have n: "''h.eyJlbWFpbCI6ImFAYi5jb20iLCJpYXQiOjE2OTYyNzI2MTUsImNvdW50cnkiOiJVUyJ9.s'' \<noteq> []"
    by simp
  show ?thesis
    unfolding handleSecure_success [OF c n sample_decodeJWT(1)]
    by (simp add: orUnknown_def sample_date)
qed

lemma sample_page_no_2025:
  \<open>\<not> sublist ''a@b.com authenticated at Thu, 02 Oct 2025 22:30:15 GMT from''
       (renderHTML ''Authentication Info''
       ''<p>a@b.com authenticated at Mon, 02 Oct 2023 18:50:15 GMT from <a href="/secure/US">US</a></p>'')\<close>
  by code_simp

text \<open>
  C6, as stated, fails on the date: 1696272615 seconds after the epoch is Monday 2 October
  2023, 18:50:15 GMT, and the page for these claims does not hold the sentence with
  \<open>Thu, 02 Oct 2025 22:30:15 GMT\<close>.
\<close>

theorem example_date_counterexample:
  \<open>decodeJWT samplePlatform
      ''h.eyJlbWFpbCI6ImFAYi5jb20iLCJpYXQiOjE2OTYyNzI2MTUsImNvdW50cnkiOiJVUyJ9.s''
     = Inr (JsonObject
         \<lparr>email = Some ''a@b.com'', iat = Some 1696272615, country = Some ''US'', sub = None\<rparr>)
   \<and> \<not> sublist ''a@b.com authenticated at Thu, 02 Oct 2025 22:30:15 GMT from''
        (body (handleSecure samplePlatform
          \<lparr>pathname = ''/secure'',
           Cookie = Some ''CF_Authorization=h.eyJlbWFpbCI6ImFAYi5jb20iLCJpYXQiOjE2OTYyNzI2MTUsImNvdW50cnkiOiJVUyJ9.s''\<rparr>))\<close>
  unfolding sample_page using sample_decodeJWT(1) sample_page_no_2025 by simp

text \<open>
  C6, amended. For every token whose payload decodes to a claims record, the page holds
  the sentence \<open>{email} authenticated at {timestamp} from\<close> and a link to \<open>/secure/{country}\<close>;
  for the email \<open>a@b.com\<close>, the time 1696272615 and the country \<open>US\<close> these are \<open>a@b.com\<close>,
  \<open>Mon, 02 Oct 2023 18:50:15 GMT\<close> and \<open>US\<close>; an absent email or country is rendered as
  \<open>Unknown\<close>, and so is the timestamp of an absent \<open>iat\<close>.
\<close>

theorem claims_page:
  assumes "cookieToken (Cookie request) = Some jwt" and "jwt \<noteq> []"
    and "decodeJWT pf jwt = Inr (JsonObject payload)"
  shows \<open>\<exists>e ts c.
      body (handleSecure pf request) =
        renderHTML ''Authentication Info''
          (''<p>'' @ e @ '' authenticated at '' @ ts
           @ '' from <a href="/secure/'' @ c @ ''">'' @ c @ ''</a></p>'')
      \<and> (email payload = Some ''a@b.com'' \<longrightarrow> e = ''a@b.com'')
      \<and> (email payload = None \<longrightarrow> e = ''Unknown'')
      \<and> (iat payload = Some 1696272615 \<longrightarrow> ts = ''Mon, 02 Oct 2023 18:50:15 GMT'')
      \<and> (iat payload = None \<longrightarrow> ts = ''Unknown'')
      \<and> (country payload = Some ''US'' \<longrightarrow> c = ''US'')
      \<and> (country payload = None \<longrightarrow> c = ''Unknown'')\<close>
proof -
  let ?e = "orUnknown (email payload)"
  let ?ts = "case iat payload of None \<Rightarrow> ''Unknown''
             | Some t \<Rightarrow> if t = 0 then ''Unknown'' else toUTCString (t * 1000)"
  let ?c = "orUnknown (country payload)"
  have b: \<open>body (handleSecure pf request) =
        renderHTML ''Authentication Info''
          (''<p>'' @ ?e @ '' authenticated at '' @ ?ts
           @ '' from <a href="/secure/'' @ ?c @ ''">'' @ ?c @ ''</a></p>'')\<close>
    unfolding handleSecure_success [OF assms] by simp
  have e: "email payload = Some ''a@b.com'' \<longrightarrow> ?e = ''a@b.com''"
    "email payload = None \<longrightarrow> ?e = ''Unknown''"
    by (simp_all add: orUnknown_def)
  have t: "iat payload = Some 1696272615 \<longrightarrow> ?ts = ''Mon, 02 Oct 2023 18:50:15 GMT''"
    "iat payload = None \<longrightarrow> ?ts = ''Unknown''"
    by (simp_all add: sample_date)
  have c: "country payload = Some ''US'' \<longrightarrow> ?c = ''US''"
    "country payload = None \<longrightarrow> ?c = ''Unknown''"
    by (simp_all add: orUnknown_def)
  show ?thesis
    by (rule exI [of _ ?e], rule exI [of _ ?ts], rule exI [of _ ?c]) (intro conjI b e t c)
qed

theorem claims_page_witness:
  \<open>sublist ''a@b.com authenticated at Mon, 02 Oct 2023 18:50:15 GMT from <a href="/secure/US">US</a>''
     (body (handleSecure samplePlatform
        \<lparr>pathname = ''/secure'',
         Cookie = Some ''CF_Authorization=h.eyJlbWFpbCI6ImFAYi5jb20iLCJpYXQiOjE2OTYyNzI2MTUsImNvdW50cnkiOiJVUyJ9.s''\<rparr>))
   \<and> sublist ''Unknown authenticated at Unknown from <a href="/secure/Unknown">Unknown</a>''
     (body (handleSecure samplePlatform
        \<lparr>pathname = ''/secure'', Cookie = Some ''CF_Authorization=h.e30.s''\<rparr>))\<close>
proof -
  let ?r1 = "\<lparr>pathname = ''/secure'',
         Cookie = Some ''CF_Authorization=h.eyJlbWFpbCI6ImFAYi5jb20iLCJpYXQiOjE2OTYyNzI2MTUsImNvdW50cnkiOiJVUyJ9.s''\<rparr>"
  let ?r2 = "\<lparr>pathname = ''/secure'', Cookie = Some ''CF_Authorization=h.e30.s''\<rparr>"
  have c1: "cookieToken (Cookie ?r1)
      = Some ''h.eyJlbWFpbCI6ImFAYi5jb20iLCJpYXQiOjE2OTYyNzI2MTUsImNvdW50cnkiOiJVUyJ9.s''"
    and c2: "cookieToken (Cookie ?r2) = Some ''h.e30.s''"
    by (simp_all add: sample_cookies)
  have n1: "''h.eyJlbWFpbCI6ImFAYi5jb20iLCJpYXQiOjE2OTYyNzI2MTUsImNvdW50cnkiOiJVUyJ9.s'' \<noteq> []"
    and n2: "''h.e30.s'' \<noteq> []" by simp_all
  have s: "sublist x (p @ x @ q)" for x p q :: string
    by (auto simp: sublist_def)
  from claims_page [OF c1 n1 sample_decodeJWT(1)]
  have \<open>body (handleSecure samplePlatform ?r1) =
        renderHTML ''Authentication Info''
          (''<p>'' @ ''a@b.com authenticated at Mon, 02 Oct 2023 18:50:15 GMT from <a href="/secure/US">US</a>''
           @ ''</p>'')\<close>
    by auto
  then have 1: \<open>sublist ''a@b.com authenticated at Mon, 02 Oct 2023 18:50:15 GMT from <a href="/secure/US">US</a>''
     (body (handleSecure samplePlatform ?r1))\<close>
    by (simp only: sublist_renderHTML s)
  from claims_page [OF c2 n2 sample_decodeJWT(3)]
  have \<open>body (handleSecure samplePlatform ?r2) =
        renderHTML ''Authentication Info''
          (''<p>'' @ ''Unknown authenticated at Unknown from <a href="/secure/Unknown">Unknown</a>''
           @ ''</p>'')\<close>
    by auto
  then have 2: \<open>sublist ''Unknown authenticated at Unknown from <a href="/secure/Unknown">Unknown</a>''
     (body (handleSecure samplePlatform ?r2))\<close>
    by (simp only: sublist_renderHTML s)
  from 1 2 show ?thesis by (rule conjI)
qed

section \<open>Error responses\<close>











end
